theory Spec2Isabelle
  imports Main "HOL-Library.Word"
begin

section \<open>Constants of entrustash.h\<close>

text \<open>
  The macros of \<^verbatim>\<open>entrustash.h\<close>, with the values the header gives them. The two
  \<^verbatim>\<open>..._BYTES_INIT\<close> literals carry the suffix \<^verbatim>\<open>U\<close>: they are \<^verbatim>\<open>unsigned int\<close>.
\<close>

definition ENTRUSTASH_DATASET_BYTES_INIT :: "32 word" where
  "ENTRUSTASH_DATASET_BYTES_INIT = 1073741824"

definition ENTRUSTASH_CACHE_BYTES_INIT :: "32 word" where
  "ENTRUSTASH_CACHE_BYTES_INIT = 1073741824"

definition ENTRUSTASH_DAG_MAGIC_NUM_SIZE :: nat where
  "ENTRUSTASH_DAG_MAGIC_NUM_SIZE = 8"

definition ENTRUSTASH_DAG_MAGIC_NUM :: "64 word" where
  "ENTRUSTASH_DAG_MAGIC_NUM = 0xFEE1DEADBADDCAFE"

section \<open>Status codes\<close>

text \<open>
  \<^verbatim>\<open>enum entrustash_io_rc\<close> is declared in \<^verbatim>\<open>io.h\<close>; \<^verbatim>\<open>io.c\<close> uses these four
  enumerators by name.
\<close>

datatype entrustash_io_rc =
    ENTRUSTASH_IO_FAIL
  | ENTRUSTASH_IO_MEMO_SIZE_MISMATCH
  | ENTRUSTASH_IO_MEMO_MISMATCH
  | ENTRUSTASH_IO_MEMO_MATCH

section \<open>The platform: files, streams and the C library calls of io.c\<close>

text \<open>
  The operating system is outside the repository. It is modelled as a state (\<open>world\<close>)
  on which each library call acts, and a record (\<open>platform\<close>) that says which calls the
  system lets succeed, so that every failure branch of the code can be taken.

  The target is a 64-bit one: \<^verbatim>\<open>size_t\<close> and \<^verbatim>\<open>uint64_t\<close> are \<open>64 word\<close>. The width of
  \<^verbatim>\<open>long int\<close> is the field \<open>long_bits\<close> (32 on Windows, 64 on LP64 systems). A
  \<^verbatim>\<open>uint64_t\<close> read from a file is little-endian. Strings are the characters before the
  terminating NUL. Writes reach the file at once (stdio buffering is not modelled).
\<close>

type_synonym byte = "8 word"

type_synonym FILE = nat

datatype os_call =
    Call_mkdir string
  | Call_malloc nat
  | Call_free string
  | Call_fopen string string
  | Call_fstat FILE
  | Call_fread FILE nat
  | Call_fseek FILE int
  | Call_fputc FILE byte
  | Call_fflush FILE
  | Call_fclose FILE

record platform =
  long_bits :: nat
  mkdir_permitted :: bool
  malloc_succeeds :: bool
  fopen_rb_permitted :: bool
  fstat_succeeds :: bool
  fread_succeeds :: bool
  fopen_wb_permitted :: bool
  fseek_succeeds :: bool
  fputc_succeeds :: bool
  fflush_succeeds :: bool

record world =
  errno :: int
  dirs :: "string set"
  files :: "string \<rightharpoonup> byte list"
  streams :: "FILE \<rightharpoonup> string \<times> nat"
  next_FILE :: FILE
  calls :: "os_call list"

definition EEXIST :: int where
  "EEXIST = 17"

definition ENOENT :: int where
  "ENOENT = 2"

definition NUL :: char where
  "NUL = CHR 0x00"

definition logged :: "os_call \<Rightarrow> world \<Rightarrow> world" where
  "logged c w = w\<lparr>calls := calls w @ [c]\<rparr>"

text \<open>
  \<^verbatim>\<open>_mkdir\<close>: \<open>-1\<close> with \<^verbatim>\<open>errno = EEXIST\<close> when the directory is there, \<open>0\<close> when
  it is created, \<open>-1\<close> with \<^verbatim>\<open>errno = ENOENT\<close> when it cannot be created.
\<close>

definition c_mkdir :: "platform \<Rightarrow> world \<Rightarrow> string \<Rightarrow> int \<times> world" where
  "c_mkdir p w dirname =
     (let w' = logged (Call_mkdir dirname) w in
      if dirname \<in> dirs w' then (- 1, w'\<lparr>errno := EEXIST\<rparr>)
      else if mkdir_permitted p then (0, w'\<lparr>dirs := insert dirname (dirs w')\<rparr>)
      else (- 1, w'\<lparr>errno := ENOENT\<rparr>))"

definition c_malloc :: "platform \<Rightarrow> world \<Rightarrow> nat \<Rightarrow> bool \<times> world" where
  "c_malloc p w n = (malloc_succeeds p, logged (Call_malloc n) w)"

definition c_free :: "world \<Rightarrow> string \<Rightarrow> world" where
  "c_free w s = logged (Call_free s) w"

text \<open>
  \<^verbatim>\<open>fopen\<close>: mode \<^verbatim>\<open>rb+\<close> opens a file that exists, mode \<^verbatim>\<open>wb+\<close> creates the file or
  truncates it to length 0. The new stream is at position 0.
\<close>

definition open_stream :: "world \<Rightarrow> string \<Rightarrow> FILE option \<times> world" where
  "open_stream w path =
     (Some (next_FILE w),
      w\<lparr>streams := (streams w)(next_FILE w \<mapsto> (path, 0)), next_FILE := Suc (next_FILE w)\<rparr>)"

definition c_fopen :: "platform \<Rightarrow> world \<Rightarrow> string \<Rightarrow> string \<Rightarrow> FILE option \<times> world" where
  "c_fopen p w path mode =
     (let w' = logged (Call_fopen path mode) w in
      if mode = ''rb+'' then
        (if files w' path \<noteq> None \<and> fopen_rb_permitted p then open_stream w' path
         else (None, w'))
      else if mode = ''wb+'' then
        (if fopen_wb_permitted p then open_stream (w'\<lparr>files := (files w')(path \<mapsto> [])\<rparr>) path
         else (None, w'))
      else (None, w'))"

definition c_fclose :: "world \<Rightarrow> FILE \<Rightarrow> world" where
  "c_fclose w f = (logged (Call_fclose f) w)\<lparr>streams := (streams w)(f := None)\<rparr>"

definition stream_bytes :: "world \<Rightarrow> FILE \<Rightarrow> (string \<times> nat \<times> byte list) option" where
  "stream_bytes w f =
     (case streams w f of
        None \<Rightarrow> None
      | Some (path, pos) \<Rightarrow>
          (case files w path of None \<Rightarrow> None | Some bs \<Rightarrow> Some (path, pos, bs)))"

definition load_u64 :: "byte list \<Rightarrow> 64 word" where
  "load_u64 bs = foldr (\<lambda>b acc. ucast b + 256 * acc) bs 0"

text \<open>
  \<^verbatim>\<open>fread(&v, 8, 1, f)\<close>: one item of 8 bytes, or no item when fewer than 8 bytes are
  left or the read fails.
\<close>

definition c_fread_u64 :: "platform \<Rightarrow> world \<Rightarrow> FILE \<Rightarrow> 64 word option \<times> world" where
  "c_fread_u64 p w f =
     (let w' = logged (Call_fread f 8) w in
      case stream_bytes w' f of
        None \<Rightarrow> (None, w')
      | Some (path, pos, bs) \<Rightarrow>
          if fread_succeeds p \<and> pos + 8 \<le> length bs
          then (Some (load_u64 (take 8 (drop pos bs))),
                w'\<lparr>streams := (streams w')(f \<mapsto> (path, pos + 8))\<rparr>)
          else (None, w'))"

text \<open>\<^verbatim>\<open>fseek(f, offset, SEEK_SET)\<close>: a negative offset is refused.\<close>

definition c_fseek :: "platform \<Rightarrow> world \<Rightarrow> FILE \<Rightarrow> int \<Rightarrow> bool \<times> world" where
  "c_fseek p w f offset =
     (let w' = logged (Call_fseek f offset) w in
      case streams w' f of
        None \<Rightarrow> (False, w')
      | Some (path, pos) \<Rightarrow>
          if 0 \<le> offset \<and> fseek_succeeds p
          then (True, w'\<lparr>streams := (streams w')(f \<mapsto> (path, nat offset))\<rparr>)
          else (False, w'))"

text \<open>
  \<^verbatim>\<open>fputc\<close>: the byte is stored at the position of the stream; a position past the
  end of the file leaves a gap of zero bytes.
\<close>

definition put_byte :: "byte list \<Rightarrow> nat \<Rightarrow> byte \<Rightarrow> byte list" where
  "put_byte bs pos b =
     (if pos < length bs then bs[pos := b] else bs @ replicate (pos - length bs) 0 @ [b])"

definition c_fputc :: "platform \<Rightarrow> world \<Rightarrow> FILE \<Rightarrow> byte \<Rightarrow> bool \<times> world" where
  "c_fputc p w f b =
     (let w' = logged (Call_fputc f b) w in
      case stream_bytes w' f of
        None \<Rightarrow> (False, w')
      | Some (path, pos, bs) \<Rightarrow>
          if fputc_succeeds p
          then (True, w'\<lparr>files := (files w')(path \<mapsto> put_byte bs pos b),
                         streams := (streams w')(f \<mapsto> (path, Suc pos))\<rparr>)
          else (False, w'))"

definition c_fflush :: "platform \<Rightarrow> world \<Rightarrow> FILE \<Rightarrow> bool \<times> world" where
  "c_fflush p w f = (fflush_succeeds p \<and> streams w f \<noteq> None, logged (Call_fflush f) w)"

text \<open>The conversion \<^verbatim>\<open>(long int)x\<close> of a \<^verbatim>\<open>uint64_t\<close>: the low bits, read as signed.\<close>

definition to_long :: "nat \<Rightarrow> 64 word \<Rightarrow> int" where
  "to_long bits x =
     (let m = uint x mod 2 ^ bits in if m < 2 ^ (bits - 1) then m else m - 2 ^ bits)"

section \<open>io_win32.c\<close>

definition entrustash_fopen :: "platform \<Rightarrow> world \<Rightarrow> string \<Rightarrow> string \<Rightarrow> FILE option \<times> world" where
  "entrustash_fopen p w file_name mode = c_fopen p w file_name mode"

text \<open>
  \<^verbatim>\<open>strncat_s(dest, dest_size, src, count)\<close>: appends at most \<open>count\<close> characters of
  \<open>src\<close>; when they and the terminator do not fit into \<open>dest_size\<close> bytes, \<open>dest\<close> is
  set to the empty string and an error is returned. The result is the new content of
  \<open>dest\<close> and whether the call succeeded (\<^verbatim>\<open>entrustash_strncat\<close> returns \<^verbatim>\<open>dest\<close> or \<^verbatim>\<open>NULL\<close>).
\<close>

definition entrustash_strncat :: "string \<Rightarrow> nat \<Rightarrow> string \<Rightarrow> nat \<Rightarrow> string \<times> bool" where
  "entrustash_strncat dest dest_size src count =
     (if length dest + length (take count src) + 1 \<le> dest_size
      then (dest @ take count src, True)
      else ([], False))"

definition entrustash_mkdir :: "platform \<Rightarrow> world \<Rightarrow> string \<Rightarrow> bool \<times> world" where
  "entrustash_mkdir p w dirname =
     (let (rc, w') = c_mkdir p w dirname in (rc \<noteq> - 1 \<or> errno w' = EEXIST, w'))"

text \<open>\<^verbatim>\<open>s[i]\<close> for \<open>i\<close> up to \<^verbatim>\<open>strlen(s)\<close>: the character at \<^verbatim>\<open>strlen(s)\<close> is the terminator.\<close>

definition c_char_at :: "string \<Rightarrow> nat \<Rightarrow> char" where
  "c_char_at s i = (s @ [NUL]) ! i"

text \<open>The test \<^verbatim>\<open>c != '\\' || c != '/'\<close> of \<^verbatim>\<open>entrustash_io_create_filename\<close>.\<close>

definition separator_check :: "char \<Rightarrow> bool" where
  "separator_check c \<longleftrightarrow> c \<noteq> CHR 0x5C \<or> c \<noteq> CHR ''/''"

definition create_filename_dest_size :: "string \<Rightarrow> nat \<Rightarrow> nat" where
  "create_filename_dest_size dirname filename_length =
     (let dirlen = length dirname;
          dest_size = dirlen + filename_length + 1
      in if separator_check (c_char_at dirname dirlen) then dest_size + 1 else dest_size)"

definition entrustash_io_create_filename ::
  "platform \<Rightarrow> world \<Rightarrow> string \<Rightarrow> string \<Rightarrow> nat \<Rightarrow> string option \<times> world" where
  "entrustash_io_create_filename p w dirname filename filename_length =
     (let dirlen = length dirname;
          dest_size = create_filename_dest_size dirname filename_length;
          (allocated, w') = c_malloc p w dest_size
      in if \<not> allocated then (None, w')
         else
           let name0 = [];
               name1 = fst (entrustash_strncat name0 dest_size dirname dirlen);
               name2 = (if separator_check (c_char_at dirname dirlen)
                        then fst (entrustash_strncat name1 dest_size [CHR 0x5C] 1)
                        else name1);
               name3 = fst (entrustash_strncat name2 dest_size filename filename_length)
           in (Some name3, w'))"

definition entrustash_file_size :: "platform \<Rightarrow> world \<Rightarrow> FILE \<Rightarrow> 64 word option \<times> world" where
  "entrustash_file_size p w f =
     (let w' = logged (Call_fstat f) w in
      case stream_bytes w' f of
        None \<Rightarrow> (None, w')
      | Some (path, pos, bs) \<Rightarrow>
          if fstat_succeeds p then (Some (of_nat (length bs)), w') else (None, w'))"

section \<open>io.c\<close>

text \<open>
  \<^verbatim>\<open>entrustash_io_prepare\<close>. The result is the status, the value of \<^verbatim>\<open>*output_file\<close>
  after the call (the argument \<open>output_file\<close> is its value before) and the world after
  the call. The name of the file inside the directory is the argument \<open>mutable_name\<close>:
  \<^verbatim>\<open>entrustash_io_mutable_name\<close>, which computes it from the revision and the seed hash,
  is declared in \<^verbatim>\<open>io.h\<close>.

  \<open>io_prepare_existing\<close> is the block that validates a file opened with \<^verbatim>\<open>rb+\<close>,
  \<open>io_prepare_create\<close> the code from \<^verbatim>\<open>fopen(tmpfile, "wb+")\<close> to the label
  \<^verbatim>\<open>set_file\<close>; both end before \<^verbatim>\<open>free_memo\<close>.
\<close>

type_synonym prepare_result = "entrustash_io_rc \<times> FILE option \<times> world"

definition io_prepare_existing ::
  "platform \<Rightarrow> world \<Rightarrow> FILE \<Rightarrow> FILE option \<Rightarrow> 64 word \<Rightarrow> prepare_result" where
  "io_prepare_existing p w f output_file file_size =
     (case entrustash_file_size p w f of
        (None, w1) \<Rightarrow> (ENTRUSTASH_IO_FAIL, output_file, c_fclose w1 f)
      | (Some found_size, w1) \<Rightarrow>
          if file_size \<noteq> found_size - of_nat ENTRUSTASH_DAG_MAGIC_NUM_SIZE
          then (ENTRUSTASH_IO_MEMO_SIZE_MISMATCH, output_file, c_fclose w1 f)
          else
            (case c_fread_u64 p w1 f of
               (None, w2) \<Rightarrow> (ENTRUSTASH_IO_MEMO_SIZE_MISMATCH, output_file, c_fclose w2 f)
             | (Some magic_num, w2) \<Rightarrow>
                 if magic_num \<noteq> ENTRUSTASH_DAG_MAGIC_NUM
                 then (ENTRUSTASH_IO_MEMO_SIZE_MISMATCH, output_file, c_fclose w2 f)
                 else (ENTRUSTASH_IO_MEMO_MATCH, Some f, w2)))"

definition io_prepare_create ::
  "platform \<Rightarrow> world \<Rightarrow> string \<Rightarrow> FILE option \<Rightarrow> 64 word \<Rightarrow> prepare_result" where
  "io_prepare_create p w tmpfile output_file file_size =
     (case entrustash_fopen p w tmpfile ''wb+'' of
        (None, w1) \<Rightarrow> (ENTRUSTASH_IO_FAIL, output_file, w1)
      | (Some f, w1) \<Rightarrow>
          (case c_fseek p w1 f
                  (to_long (long_bits p) (file_size + of_nat ENTRUSTASH_DAG_MAGIC_NUM_SIZE - 1)) of
             (False, w2) \<Rightarrow> (ENTRUSTASH_IO_FAIL, output_file, c_fclose w2 f)
           | (True, w2) \<Rightarrow>
               (case c_fputc p w2 f 0x0A of
                  (False, w3) \<Rightarrow> (ENTRUSTASH_IO_FAIL, output_file, c_fclose w3 f)
                | (True, w3) \<Rightarrow>
                    (case c_fflush p w3 f of
                       (False, w4) \<Rightarrow> (ENTRUSTASH_IO_FAIL, output_file, c_fclose w4 f)
                     | (True, w4) \<Rightarrow> (ENTRUSTASH_IO_MEMO_MISMATCH, Some f, w4)))))"

definition free_memo :: "string \<Rightarrow> prepare_result \<Rightarrow> prepare_result" where
  "free_memo tmpfile r = (case r of (ret, output_file, w) \<Rightarrow> (ret, output_file, c_free w tmpfile))"

definition entrustash_io_prepare ::
  "platform \<Rightarrow> world \<Rightarrow> string \<Rightarrow> string \<Rightarrow> FILE option \<Rightarrow> 64 word \<Rightarrow> bool \<Rightarrow> prepare_result" where
  "entrustash_io_prepare p w dirname mutable_name output_file file_size force_create =
     (case entrustash_mkdir p (w\<lparr>errno := 0\<rparr>) dirname of
        (False, w1) \<Rightarrow> (ENTRUSTASH_IO_FAIL, output_file, w1)
      | (True, w1) \<Rightarrow>
          (case entrustash_io_create_filename p w1 dirname mutable_name (length mutable_name) of
             (None, w2) \<Rightarrow> (ENTRUSTASH_IO_FAIL, output_file, w2)
           | (Some tmpfile, w2) \<Rightarrow>
               free_memo tmpfile
                 (if \<not> force_create then
                    (case entrustash_fopen p w2 tmpfile ''rb+'' of
                       (Some f, w3) \<Rightarrow> io_prepare_existing p w3 f output_file file_size
                     | (None, w3) \<Rightarrow> io_prepare_create p w3 tmpfile output_file file_size)
                  else io_prepare_create p w2 tmpfile output_file file_size)))"

section \<open>Notions used to state the properties\<close>

text \<open>
  The path that \<^verbatim>\<open>entrustash_io_create_filename\<close> builds from the directory and the
  file name (lemma \<open>create_filename_eq\<close> below), and the offset that
  \<^verbatim>\<open>entrustash_io_prepare\<close> passes to \<^verbatim>\<open>fseek\<close>.
\<close>

definition dag_path :: "string \<Rightarrow> string \<Rightarrow> string" where
  "dag_path dirname mutable_name = dirname @ [CHR 0x5C] @ mutable_name"

definition seek_offset :: "platform \<Rightarrow> 64 word \<Rightarrow> int" where
  "seek_offset p fs = to_long (long_bits p) (fs + 8 - 1)"

text \<open>
  \<open>derives\<close>: the directory check passes and the path name is allocated, so the code
  reaches line 52. \<open>reopens\<close>: the file is opened by \<^verbatim>\<open>fopen(tmpfile, "rb+")\<close>.
\<close>

definition derives :: "platform \<Rightarrow> world \<Rightarrow> string \<Rightarrow> bool" where
  "derives p w d \<longleftrightarrow> (d \<in> dirs w \<or> mkdir_permitted p) \<and> malloc_succeeds p"

definition reopens :: "platform \<Rightarrow> world \<Rightarrow> string \<Rightarrow> bool \<Rightarrow> bool" where
  "reopens p w path force \<longleftrightarrow> \<not> force \<and> files w path \<noteq> None \<and> fopen_rb_permitted p"

text \<open>
  The status and the library calls of the two blocks, written as tables; the lemmas
  \<open>io_prepare_existing_rc\<close>, \<open>io_prepare_existing_world\<close>, \<open>io_prepare_create_rc\<close> and
  \<open>io_prepare_create_world\<close> prove that the code computes them.
\<close>

definition existing_rc :: "platform \<Rightarrow> byte list \<Rightarrow> 64 word \<Rightarrow> entrustash_io_rc" where
  "existing_rc p bs fs =
     (if \<not> fstat_succeeds p then ENTRUSTASH_IO_FAIL
      else if fs \<noteq> of_nat (length bs) - 8 then ENTRUSTASH_IO_MEMO_SIZE_MISMATCH
      else if \<not> (fread_succeeds p \<and> 8 \<le> length bs) then ENTRUSTASH_IO_MEMO_SIZE_MISMATCH
      else if load_u64 (take 8 bs) \<noteq> ENTRUSTASH_DAG_MAGIC_NUM then ENTRUSTASH_IO_MEMO_SIZE_MISMATCH
      else ENTRUSTASH_IO_MEMO_MATCH)"

definition create_rc :: "platform \<Rightarrow> 64 word \<Rightarrow> entrustash_io_rc" where
  "create_rc p fs =
     (if fopen_wb_permitted p \<and> 0 \<le> seek_offset p fs \<and> fseek_succeeds p
         \<and> fputc_succeeds p \<and> fflush_succeeds p
      then ENTRUSTASH_IO_MEMO_MISMATCH else ENTRUSTASH_IO_FAIL)"

definition existing_calls :: "platform \<Rightarrow> FILE \<Rightarrow> byte list \<Rightarrow> 64 word \<Rightarrow> os_call list" where
  "existing_calls p f bs fs =
     [Call_fstat f]
     @ (if fstat_succeeds p \<and> fs = of_nat (length bs) - 8 then [Call_fread f 8] else [])
     @ (if existing_rc p bs fs = ENTRUSTASH_IO_MEMO_MATCH then [] else [Call_fclose f])"

definition create_calls :: "platform \<Rightarrow> FILE \<Rightarrow> string \<Rightarrow> 64 word \<Rightarrow> os_call list" where
  "create_calls p f path fs =
     [Call_fopen path ''wb+'']
     @ (if fopen_wb_permitted p then
          [Call_fseek f (seek_offset p fs)]
          @ (if 0 \<le> seek_offset p fs \<and> fseek_succeeds p then
               [Call_fputc f 0x0A] @ (if fputc_succeeds p then [Call_fflush f] else [])
             else [])
          @ (if create_rc p fs = ENTRUSTASH_IO_MEMO_MISMATCH then [] else [Call_fclose f])
        else [])"

text \<open>Concrete platforms, worlds and file contents for the examples.\<close>

definition all_succeed :: platform where
  "all_succeed =
     \<lparr>long_bits = 32, mkdir_permitted = True, malloc_succeeds = True, fopen_rb_permitted = True,
      fstat_succeeds = True, fread_succeeds = True, fopen_wb_permitted = True,
      fseek_succeeds = True, fputc_succeeds = True, fflush_succeeds = True\<rparr>"

definition empty_world :: world where
  "empty_world =
     \<lparr>errno = 0, dirs = {}, files = Map.empty, streams = Map.empty, next_FILE = 0, calls = []\<rparr>"

definition world_with :: "string \<Rightarrow> string \<Rightarrow> byte list \<Rightarrow> world" where
  "world_with d n bs = empty_world\<lparr>dirs := {d}, files := [dag_path d n \<mapsto> bs]\<rparr>"

definition magic_bytes :: "byte list" where
  "magic_bytes = [0xFE, 0xCA, 0xDD, 0xBA, 0xAD, 0xDE, 0xE1, 0xFE]"

definition fread_fails :: platform where
  "fread_fails = all_succeed\<lparr>fread_succeeds := False\<rparr>"


section \<open>What the calls and the two blocks compute\<close>

text \<open>
  Each call is first described by its result and by the fields of the world after it,
  then the two blocks of \<^verbatim>\<open>entrustash_io_prepare\<close>, then the whole function along each of
  its three ways: the path is not derived (\<open>prepare_underived\<close>), the file is reopened
  (\<open>prepare_reopened\<close>), the file is created (\<open>prepare_created\<close>).
\<close>

lemma logged_fields [simp]:
  "errno (logged c w) = errno w"
  "dirs (logged c w) = dirs w"
  "files (logged c w) = files w"
  "streams (logged c w) = streams w"
  "next_FILE (logged c w) = next_FILE w"
  "calls (logged c w) = calls w @ [c]"
  by (simp_all add: logged_def)

lemma separator_check_True: "separator_check c"
  by (auto simp: separator_check_def)

lemma entrustash_mkdir_fst: "fst (entrustash_mkdir p w d) \<longleftrightarrow> d \<in> dirs w \<or> mkdir_permitted p"
  by (simp add: entrustash_mkdir_def c_mkdir_def Let_def EEXIST_def ENOENT_def)

lemma entrustash_mkdir_snd [simp]:
  "files (snd (entrustash_mkdir p w d)) = files w"
  "streams (snd (entrustash_mkdir p w d)) = streams w"
  "next_FILE (snd (entrustash_mkdir p w d)) = next_FILE w"
  "calls (snd (entrustash_mkdir p w d)) = calls w @ [Call_mkdir d]"
  "dirs (snd (entrustash_mkdir p w d)) = (if mkdir_permitted p then insert d (dirs w) else dirs w)"
  by (auto simp: entrustash_mkdir_def c_mkdir_def Let_def)

lemma create_filename_eq:
  "entrustash_io_create_filename p w d n (length n) =
     (if malloc_succeeds p then Some (dag_path d n) else None,
      logged (Call_malloc (length d + length n + 2)) w)"
  by (simp add: entrustash_io_create_filename_def create_filename_dest_size_def separator_check_True
      c_malloc_def entrustash_strncat_def dag_path_def Let_def)

lemma fopen_rb_eq:
  "entrustash_fopen p w path ''rb+'' =
     (if files w path \<noteq> None \<and> fopen_rb_permitted p
      then (Some (next_FILE w),
            (logged (Call_fopen path ''rb+'') w)
              \<lparr>streams := (streams w)(next_FILE w \<mapsto> (path, 0)), next_FILE := Suc (next_FILE w)\<rparr>)
      else (None, logged (Call_fopen path ''rb+'') w))"
  by (simp add: entrustash_fopen_def c_fopen_def open_stream_def Let_def)

lemma fopen_wb_eq:
  "entrustash_fopen p w path ''wb+'' =
     (if fopen_wb_permitted p
      then (Some (next_FILE w),
            (logged (Call_fopen path ''wb+'') w)
              \<lparr>files := (files w)(path \<mapsto> []),
                streams := (streams w)(next_FILE w \<mapsto> (path, 0)), next_FILE := Suc (next_FILE w)\<rparr>)
      else (None, logged (Call_fopen path ''wb+'') w))"
  by (simp add: entrustash_fopen_def c_fopen_def open_stream_def Let_def)

lemma file_size_eq:
  assumes "streams w f = Some (path, pos)" "files w path = Some bs"
  shows "entrustash_file_size p w f =
     (if fstat_succeeds p then Some (of_nat (length bs)) else None, logged (Call_fstat f) w)"
  using assms by (simp add: entrustash_file_size_def stream_bytes_def Let_def)

lemma fread_eq:
  assumes "streams w f = Some (path, pos)" "files w path = Some bs"
  shows "c_fread_u64 p w f =
     (if fread_succeeds p \<and> pos + 8 \<le> length bs
      then (Some (load_u64 (take 8 (drop pos bs))),
            (logged (Call_fread f 8) w)\<lparr>streams := (streams w)(f \<mapsto> (path, pos + 8))\<rparr>)
      else (None, logged (Call_fread f 8) w))"
  using assms by (simp add: c_fread_u64_def stream_bytes_def Let_def)

lemma fclose_fields [simp]:
  "errno (c_fclose w f) = errno w"
  "dirs (c_fclose w f) = dirs w"
  "files (c_fclose w f) = files w"
  "streams (c_fclose w f) = (streams w)(f := None)"
  "next_FILE (c_fclose w f) = next_FILE w"
  "calls (c_fclose w f) = calls w @ [Call_fclose f]"
  by (simp_all add: c_fclose_def)

lemma io_prepare_existing_rc:
  assumes "streams w f = Some (path, 0)" "files w path = Some bs"
  shows "fst (io_prepare_existing p w f out fs) = existing_rc p bs fs"
  using assms
  by (simp add: io_prepare_existing_def existing_rc_def file_size_eq [OF assms]
      fread_eq [where pos = 0 and bs = bs and path = path] ENTRUSTASH_DAG_MAGIC_NUM_SIZE_def)

lemma io_prepare_existing_out:
  assumes "streams w f = Some (path, 0)" "files w path = Some bs"
  shows "fst (snd (io_prepare_existing p w f out fs)) =
           (if existing_rc p bs fs = ENTRUSTASH_IO_MEMO_MATCH then Some f else out)"
  using assms
  by (simp add: io_prepare_existing_def existing_rc_def file_size_eq [OF assms]
      fread_eq [where pos = 0 and bs = bs and path = path] ENTRUSTASH_DAG_MAGIC_NUM_SIZE_def)

lemma io_prepare_existing_world:
  assumes "streams w f = Some (path, 0)" "files w path = Some bs"
  shows "files (snd (snd (io_prepare_existing p w f out fs))) = files w"
    and "dirs (snd (snd (io_prepare_existing p w f out fs))) = dirs w"
    and "next_FILE (snd (snd (io_prepare_existing p w f out fs))) = next_FILE w"
    and "streams (snd (snd (io_prepare_existing p w f out fs))) =
           (if existing_rc p bs fs = ENTRUSTASH_IO_MEMO_MATCH
            then (streams w)(f \<mapsto> (path, 8)) else (streams w)(f := None))"
    and "calls (snd (snd (io_prepare_existing p w f out fs))) =
           calls w @ [Call_fstat f]
           @ (if fstat_succeeds p \<and> fs = of_nat (length bs) - 8 then [Call_fread f 8] else [])
           @ (if existing_rc p bs fs = ENTRUSTASH_IO_MEMO_MATCH then [] else [Call_fclose f])"
  using assms
  by (simp_all add: io_prepare_existing_def existing_rc_def file_size_eq [OF assms]
      fread_eq [where pos = 0 and bs = bs and path = path] ENTRUSTASH_DAG_MAGIC_NUM_SIZE_def)

lemmas create_unfold =
  io_prepare_create_def fopen_wb_eq c_fseek_def c_fputc_def c_fflush_def stream_bytes_def
  Let_def create_rc_def seek_offset_def ENTRUSTASH_DAG_MAGIC_NUM_SIZE_def

lemma io_prepare_create_rc:
  "fst (io_prepare_create p w path out fs) = create_rc p fs"
  by (simp add: create_unfold)

lemma io_prepare_create_out:
  "fst (snd (io_prepare_create p w path out fs)) =
     (if create_rc p fs = ENTRUSTASH_IO_MEMO_MISMATCH then Some (next_FILE w) else out)"
  by (simp add: create_unfold)

lemma io_prepare_create_world:
  shows "files (snd (snd (io_prepare_create p w path out fs))) =
           (if fopen_wb_permitted p
            then (files w)(path \<mapsto>
                   (if 0 \<le> seek_offset p fs \<and> fseek_succeeds p \<and> fputc_succeeds p
                    then put_byte [] (nat (seek_offset p fs)) 0x0A else []))
            else files w)"
    and "dirs (snd (snd (io_prepare_create p w path out fs))) = dirs w"
    and "next_FILE (snd (snd (io_prepare_create p w path out fs))) =
           (if fopen_wb_permitted p then Suc (next_FILE w) else next_FILE w)"
    and "streams (snd (snd (io_prepare_create p w path out fs))) =
           (if create_rc p fs = ENTRUSTASH_IO_MEMO_MISMATCH
            then (streams w)(next_FILE w \<mapsto> (path, Suc (nat (seek_offset p fs))))
            else if fopen_wb_permitted p then (streams w)(next_FILE w := None)
            else streams w)"
    and "calls (snd (snd (io_prepare_create p w path out fs))) =
           calls w @ [Call_fopen path ''wb+'']
           @ (if fopen_wb_permitted p then
                [Call_fseek (next_FILE w) (seek_offset p fs)]
                @ (if 0 \<le> seek_offset p fs \<and> fseek_succeeds p then
                     [Call_fputc (next_FILE w) 0x0A]
                     @ (if fputc_succeeds p then [Call_fflush (next_FILE w)] else [])
                   else [])
                @ (if create_rc p fs = ENTRUSTASH_IO_MEMO_MISMATCH then []
                   else [Call_fclose (next_FILE w)])
              else [])"
  by (simp_all add: create_unfold split: bool.splits)

lemma free_memo_fields [simp]:
  "fst (free_memo t r) = fst r"
  "fst (snd (free_memo t r)) = fst (snd r)"
  "files (snd (snd (free_memo t r))) = files (snd (snd r))"
  "dirs (snd (snd (free_memo t r))) = dirs (snd (snd r))"
  "streams (snd (snd (free_memo t r))) = streams (snd (snd r))"
  "next_FILE (snd (snd (free_memo t r))) = next_FILE (snd (snd r))"
  "calls (snd (snd (free_memo t r))) = calls (snd (snd r)) @ [Call_free t]"
  by (simp_all add: free_memo_def c_free_def split: prod.splits)

lemma prepare_unfold:
  "entrustash_io_prepare p w d n out fs force =
     (let w1 = snd (entrustash_mkdir p (w\<lparr>errno := 0\<rparr>) d);
          w2 = logged (Call_malloc (length d + length n + 2)) w1;
          w3 = logged (Call_fopen (dag_path d n) ''rb+'') w2
      in if \<not> (d \<in> dirs w \<or> mkdir_permitted p) then (ENTRUSTASH_IO_FAIL, out, w1)
         else if \<not> malloc_succeeds p then (ENTRUSTASH_IO_FAIL, out, w2)
         else free_memo (dag_path d n)
           (if reopens p w (dag_path d n) force
            then io_prepare_existing p
                   (w3\<lparr>streams := (streams w)(next_FILE w \<mapsto> (dag_path d n, 0)),
                       next_FILE := Suc (next_FILE w)\<rparr>) (next_FILE w) out fs
            else io_prepare_create p (if force then w2 else w3) (dag_path d n) out fs))"
proof -
  have m: "entrustash_mkdir p (w\<lparr>errno := 0\<rparr>) d =
             (d \<in> dirs w \<or> mkdir_permitted p, snd (entrustash_mkdir p (w\<lparr>errno := 0\<rparr>) d))"
    using entrustash_mkdir_fst [of p "w\<lparr>errno := 0\<rparr>" d] by (simp add: prod_eq_iff)
  show ?thesis
    unfolding entrustash_io_prepare_def
    by (subst m) (simp add: create_filename_eq fopen_rb_eq reopens_def Let_def)
qed

lemma prepare_underived:
  assumes "\<not> derives p w d"
  shows "fst (entrustash_io_prepare p w d n out fs force) = ENTRUSTASH_IO_FAIL"
    and "fst (snd (entrustash_io_prepare p w d n out fs force)) = out"
    and "files (snd (snd (entrustash_io_prepare p w d n out fs force))) = files w"
    and "streams (snd (snd (entrustash_io_prepare p w d n out fs force))) = streams w"
    and "next_FILE (snd (snd (entrustash_io_prepare p w d n out fs force))) = next_FILE w"
    and "calls (snd (snd (entrustash_io_prepare p w d n out fs force))) =
           calls w @ [Call_mkdir d]
           @ (if d \<in> dirs w \<or> mkdir_permitted p
              then [Call_malloc (length d + length n + 2)] else [])"
  using assms by (auto simp: prepare_unfold derives_def Let_def)

lemma prepare_reopened:
  assumes "derives p w d" and "reopens p w (dag_path d n) force"
    and "files w (dag_path d n) = Some bs"
  shows "fst (entrustash_io_prepare p w d n out fs force) = existing_rc p bs fs"
    and "fst (snd (entrustash_io_prepare p w d n out fs force)) =
           (if existing_rc p bs fs = ENTRUSTASH_IO_MEMO_MATCH then Some (next_FILE w) else out)"
    and "files (snd (snd (entrustash_io_prepare p w d n out fs force))) = files w"
    and "streams (snd (snd (entrustash_io_prepare p w d n out fs force))) =
           (if existing_rc p bs fs = ENTRUSTASH_IO_MEMO_MATCH
            then (streams w)(next_FILE w \<mapsto> (dag_path d n, 8))
            else (streams w)(next_FILE w := None))"
    and "next_FILE (snd (snd (entrustash_io_prepare p w d n out fs force))) = Suc (next_FILE w)"
    and "calls (snd (snd (entrustash_io_prepare p w d n out fs force))) =
           calls w @ [Call_mkdir d, Call_malloc (length d + length n + 2),
                      Call_fopen (dag_path d n) ''rb+'']
           @ existing_calls p (next_FILE w) bs fs @ [Call_free (dag_path d n)]"
proof -
  define W where "W =
    (logged (Call_fopen (dag_path d n) ''rb+'')
       (logged (Call_malloc (length d + length n + 2))
          (snd (entrustash_mkdir p (w\<lparr>errno := 0\<rparr>) d))))
      \<lparr>streams := (streams w)(next_FILE w \<mapsto> (dag_path d n, 0)),
        next_FILE := Suc (next_FILE w)\<rparr>"
  have eq: "entrustash_io_prepare p w d n out fs force =
              free_memo (dag_path d n) (io_prepare_existing p W (next_FILE w) out fs)"
    using assms(1,2) by (simp add: prepare_unfold derives_def Let_def W_def)
  have s: "streams W (next_FILE w) = Some (dag_path d n, 0)"
    by (simp add: W_def)
  have f: "files W (dag_path d n) = Some bs"
    using assms(3) by (simp add: W_def)
  have W: "files W = files w" "streams W = (streams w)(next_FILE w \<mapsto> (dag_path d n, 0))"
    "next_FILE W = Suc (next_FILE w)"
    "calls W = calls w @ [Call_mkdir d, Call_malloc (length d + length n + 2),
                          Call_fopen (dag_path d n) ''rb+'']"
    by (simp_all add: W_def)
  show "fst (entrustash_io_prepare p w d n out fs force) = existing_rc p bs fs"
    by (simp add: eq io_prepare_existing_rc [OF s f])
  show "fst (snd (entrustash_io_prepare p w d n out fs force)) =
           (if existing_rc p bs fs = ENTRUSTASH_IO_MEMO_MATCH then Some (next_FILE w) else out)"
    by (simp add: eq io_prepare_existing_out [OF s f])
  show "files (snd (snd (entrustash_io_prepare p w d n out fs force))) = files w"
    by (simp add: eq io_prepare_existing_world [OF s f] W)
  show "streams (snd (snd (entrustash_io_prepare p w d n out fs force))) =
           (if existing_rc p bs fs = ENTRUSTASH_IO_MEMO_MATCH
            then (streams w)(next_FILE w \<mapsto> (dag_path d n, 8))
            else (streams w)(next_FILE w := None))"
    by (simp add: eq io_prepare_existing_world [OF s f] W)
  show "next_FILE (snd (snd (entrustash_io_prepare p w d n out fs force))) = Suc (next_FILE w)"
    by (simp add: eq io_prepare_existing_world [OF s f] W)
  show "calls (snd (snd (entrustash_io_prepare p w d n out fs force))) =
           calls w @ [Call_mkdir d, Call_malloc (length d + length n + 2),
                      Call_fopen (dag_path d n) ''rb+'']
           @ existing_calls p (next_FILE w) bs fs @ [Call_free (dag_path d n)]"
    by (simp add: eq io_prepare_existing_world [OF s f] W existing_calls_def)
qed

lemma prepare_created:
  assumes "derives p w d" and "\<not> reopens p w (dag_path d n) force"
  shows "fst (entrustash_io_prepare p w d n out fs force) = create_rc p fs"
    and "fst (snd (entrustash_io_prepare p w d n out fs force)) =
           (if create_rc p fs = ENTRUSTASH_IO_MEMO_MISMATCH then Some (next_FILE w) else out)"
    and "files (snd (snd (entrustash_io_prepare p w d n out fs force))) =
           (if fopen_wb_permitted p
            then (files w)(dag_path d n \<mapsto>
                   (if 0 \<le> seek_offset p fs \<and> fseek_succeeds p \<and> fputc_succeeds p
                    then put_byte [] (nat (seek_offset p fs)) 0x0A else []))
            else files w)"
    and "streams (snd (snd (entrustash_io_prepare p w d n out fs force))) =
           (if create_rc p fs = ENTRUSTASH_IO_MEMO_MISMATCH
            then (streams w)(next_FILE w \<mapsto> (dag_path d n, Suc (nat (seek_offset p fs))))
            else if fopen_wb_permitted p then (streams w)(next_FILE w := None)
            else streams w)"
    and "next_FILE (snd (snd (entrustash_io_prepare p w d n out fs force))) =
           (if fopen_wb_permitted p then Suc (next_FILE w) else next_FILE w)"
    and "calls (snd (snd (entrustash_io_prepare p w d n out fs force))) =
           calls w @ [Call_mkdir d, Call_malloc (length d + length n + 2)]
           @ (if force then [] else [Call_fopen (dag_path d n) ''rb+''])
           @ create_calls p (next_FILE w) (dag_path d n) fs @ [Call_free (dag_path d n)]"
proof -
  define W where "W =
    (if force then logged (Call_malloc (length d + length n + 2))
                     (snd (entrustash_mkdir p (w\<lparr>errno := 0\<rparr>) d))
     else logged (Call_fopen (dag_path d n) ''rb+'')
            (logged (Call_malloc (length d + length n + 2))
               (snd (entrustash_mkdir p (w\<lparr>errno := 0\<rparr>) d))))"
  have eq: "entrustash_io_prepare p w d n out fs force =
              free_memo (dag_path d n) (io_prepare_create p W (dag_path d n) out fs)"
    using assms by (simp add: prepare_unfold derives_def Let_def W_def)
  have W: "files W = files w" "streams W = streams w" "next_FILE W = next_FILE w"
    "calls W = calls w @ [Call_mkdir d, Call_malloc (length d + length n + 2)]
               @ (if force then [] else [Call_fopen (dag_path d n) ''rb+''])"
    by (simp_all add: W_def)
  show "fst (entrustash_io_prepare p w d n out fs force) = create_rc p fs"
    by (simp add: eq io_prepare_create_rc)
  show "fst (snd (entrustash_io_prepare p w d n out fs force)) =
           (if create_rc p fs = ENTRUSTASH_IO_MEMO_MISMATCH then Some (next_FILE w) else out)"
    by (simp add: eq io_prepare_create_out W)
  show "files (snd (snd (entrustash_io_prepare p w d n out fs force))) =
           (if fopen_wb_permitted p
            then (files w)(dag_path d n \<mapsto>
                   (if 0 \<le> seek_offset p fs \<and> fseek_succeeds p \<and> fputc_succeeds p
                    then put_byte [] (nat (seek_offset p fs)) 0x0A else []))
            else files w)"
    by (simp add: eq io_prepare_create_world W)
  show "streams (snd (snd (entrustash_io_prepare p w d n out fs force))) =
           (if create_rc p fs = ENTRUSTASH_IO_MEMO_MISMATCH
            then (streams w)(next_FILE w \<mapsto> (dag_path d n, Suc (nat (seek_offset p fs))))
            else if fopen_wb_permitted p then (streams w)(next_FILE w := None)
            else streams w)"
    by (simp add: eq io_prepare_create_world W)
  show "next_FILE (snd (snd (entrustash_io_prepare p w d n out fs force))) =
           (if fopen_wb_permitted p then Suc (next_FILE w) else next_FILE w)"
    by (simp add: eq io_prepare_create_world W)
  show "calls (snd (snd (entrustash_io_prepare p w d n out fs force))) =
           calls w @ [Call_mkdir d, Call_malloc (length d + length n + 2)]
           @ (if force then [] else [Call_fopen (dag_path d n) ''rb+''])
           @ create_calls p (next_FILE w) (dag_path d n) fs @ [Call_free (dag_path d n)]"
    by (simp add: eq io_prepare_create_world W create_calls_def)
qed

lemma prepare_dirs:
  "dirs (snd (snd (entrustash_io_prepare p w d n out fs force))) =
     (if mkdir_permitted p then insert d (dirs w) else dirs w)"
proof (cases "derives p w d")
  case False
  then show ?thesis by (auto simp: prepare_unfold derives_def Let_def)
next
  case True
  show ?thesis
  proof (cases "reopens p w (dag_path d n) force")
    case r: True
    then obtain bs where bs: "files w (dag_path d n) = Some bs"
      by (auto simp: reopens_def)
    have "streams ((logged (Call_fopen (dag_path d n) ''rb+'')
       (logged (Call_malloc (length d + length n + 2))
          (snd (entrustash_mkdir p (w\<lparr>errno := 0\<rparr>) d))))
      \<lparr>streams := (streams w)(next_FILE w \<mapsto> (dag_path d n, 0)),
        next_FILE := Suc (next_FILE w)\<rparr>) (next_FILE w) = Some (dag_path d n, 0)"
      by simp
    from io_prepare_existing_world(2) [OF this, of bs] bs True r show ?thesis
      by (simp add: prepare_unfold derives_def Let_def)
  next
    case False
    with True show ?thesis
      by (simp add: prepare_unfold derives_def Let_def io_prepare_create_world)
  qed
qed

lemma load_magic_bytes: "load_u64 (take 8 (magic_bytes @ bs)) = ENTRUSTASH_DAG_MAGIC_NUM"
  by (simp add: load_u64_def magic_bytes_def ENTRUSTASH_DAG_MAGIC_NUM_def)

lemma world_with_fields [simp]:
  "dirs (world_with d n bs) = {d}"
  "files (world_with d n bs) = [dag_path d n \<mapsto> bs]"
  "streams (world_with d n bs) = Map.empty"
  "next_FILE (world_with d n bs) = 0"
  "calls (world_with d n bs) = []"
  by (simp_all add: world_with_def empty_world_def)

lemma payload_size_iff:
  assumes "n < 2 ^ 64"
  shows "(fs = (of_nat n :: 64 word) - 8 \<and> 8 \<le> n) \<longleftrightarrow> n = unat fs + 8"
proof
  assume a: "fs = (of_nat n :: 64 word) - 8 \<and> 8 \<le> n"
  then have "fs = of_nat (n - 8)" by simp
  moreover have "n - 8 < 2 ^ 64" using assms by simp
  ultimately have "unat fs = n - 8"
    by (simp add: unat_of_nat)
  with a show "n = unat fs + 8" by simp
next
  assume "n = unat fs + 8"
  then show "fs = (of_nat n :: 64 word) - 8 \<and> 8 \<le> n" by simp
qed


lemma create_rc_not_match:
  "create_rc p fs \<noteq> ENTRUSTASH_IO_MEMO_MATCH"
  "create_rc p fs \<noteq> ENTRUSTASH_IO_MEMO_SIZE_MISMATCH"
  by (simp_all add: create_rc_def)

lemma existing_rc_cases:
  assumes "length bs < 2 ^ 64"
  shows "existing_rc p bs fs =
           (if \<not> fstat_succeeds p then ENTRUSTASH_IO_FAIL
            else if length bs = unat fs + 8 \<and> fread_succeeds p
                    \<and> load_u64 (take 8 bs) = ENTRUSTASH_DAG_MAGIC_NUM
            then ENTRUSTASH_IO_MEMO_MATCH else ENTRUSTASH_IO_MEMO_SIZE_MISMATCH)"
  using payload_size_iff [OF assms, of fs] by (auto simp: existing_rc_def)

lemma prepare_rc:
  "fst (entrustash_io_prepare p w d n out fs force) =
     (if \<not> derives p w d then ENTRUSTASH_IO_FAIL
      else if reopens p w (dag_path d n) force
      then existing_rc p (the (files w (dag_path d n))) fs
      else create_rc p fs)"
proof (cases "derives p w d")
  case False
  then show ?thesis by (simp add: prepare_underived)
next
  case True
  show ?thesis
  proof (cases "reopens p w (dag_path d n) force")
    case r: True
    then obtain bs where "files w (dag_path d n) = Some bs"
      by (auto simp: reopens_def)
    with True r show ?thesis by (simp add: prepare_reopened)
  next
    case False
    with True show ?thesis by (simp add: prepare_created)
  qed
qed

lemma short_file_wraps:
  assumes "k < 8"
  shows "unat ((of_nat k :: 64 word) - 8) = 2 ^ 64 - 8 + k"
proof -
  from assms have "k = 0 \<or> k = 1 \<or> k = 2 \<or> k = 3 \<or> k = 4 \<or> k = 5 \<or> k = 6 \<or> k = 7"
    by arith
  then show ?thesis by (elim disjE) (simp_all add: unsigned_minus_1_eq_mask mask_eq_exp_minus_1)
qed

lemma seek_offset_fits:
  assumes "0 < long_bits p" and "long_bits p \<le> 64" and "unat fs + 7 < 2 ^ (long_bits p - 1)"
  shows "seek_offset p fs = int (unat fs + 7)"
proof -
  have "(2::nat) ^ (long_bits p - 1) \<le> 2 ^ 63"
    using assms(2) by (intro power_increasing) auto
  then have small: "unat fs + unat (7 :: 64 word) < 2 ^ LENGTH(64)"
    using assms(3) by simp
  have "unat (fs + 7) = unat fs + unat (7 :: 64 word)"
    using small by (simp only: unat_add_lem)
  moreover have "unat (7 :: 64 word) = 7" and "fs + 8 - 1 = fs + 7"
    by simp_all
  ultimately have "unat (fs + 8 - 1) = unat fs + 7"
    by (simp only:)
  then have u: "uint (fs + 8 - 1) = int (unat fs + 7)"
    by (simp only: uint_nat)
  have "int (unat fs + 7) < int (2 ^ (long_bits p - 1))"
    using assms(3) by (simp only: of_nat_less_iff)
  then have lt: "int (unat fs + 7) < 2 ^ (long_bits p - 1)"
    by simp
  have pw: "(2::int) ^ (long_bits p - 1) \<le> 2 ^ long_bits p"
    by (intro power_increasing) auto
  have lt2: "int (unat fs + 7) < 2 ^ long_bits p"
    by (rule less_le_trans [OF lt pw])
  have m: "int (unat fs + 7) mod 2 ^ long_bits p = int (unat fs + 7)"
    by (rule mod_pos_pos_trivial [OF _ lt2]) simp
  show ?thesis
    unfolding seek_offset_def to_long_def Let_def u m using lt by simp
qed

lemma put_byte_empty: "put_byte [] k b = replicate k 0 @ [b]"
  by (simp add: put_byte_def)


lemma empty_world_fields [simp]:
  "dirs empty_world = {}"
  "files empty_world = Map.empty"
  "streams empty_world = Map.empty"
  "next_FILE empty_world = 0"
  "calls empty_world = []"
  by (simp_all add: empty_world_def)

lemma length_magic_bytes [simp]: "length magic_bytes = 8"
  by (simp add: magic_bytes_def)



lemma existing_calls_closed:
  assumes "existing_rc p bs fs \<noteq> ENTRUSTASH_IO_MEMO_MATCH"
  shows "\<exists>cs. existing_calls p f bs fs = cs @ [Call_fclose f]"
proof -
  have "existing_calls p f bs fs =
          ([Call_fstat f]
           @ (if fstat_succeeds p \<and> fs = of_nat (length bs) - 8 then [Call_fread f 8] else []))
          @ [Call_fclose f]"
    using assms by (simp add: existing_calls_def)
  then show ?thesis by blast
qed

lemma create_calls_closed:
  assumes "fopen_wb_permitted p" and "create_rc p fs \<noteq> ENTRUSTASH_IO_MEMO_MISMATCH"
  shows "\<exists>cs. create_calls p f path fs = cs @ [Call_fclose f]"
proof -
  have "create_calls p f path fs =
          ([Call_fopen path ''wb+'', Call_fseek f (seek_offset p fs)]
           @ (if 0 \<le> seek_offset p fs \<and> fseek_succeeds p then
               [Call_fputc f 0x0A] @ (if fputc_succeeds p then [Call_fflush f] else [])
              else []))
          @ [Call_fclose f]"
    using assms by (simp add: create_calls_def)
  then show ?thesis by blast
qed

lemma existing_rc_not_mismatch: "existing_rc p bs fs \<noteq> ENTRUSTASH_IO_MEMO_MISMATCH"
  by (simp add: existing_rc_def)

lemma create_rc_cases:
  "create_rc p fs = ENTRUSTASH_IO_MEMO_MISMATCH \<or> create_rc p fs = ENTRUSTASH_IO_FAIL"
  by (simp add: create_rc_def)

section \<open>Reusing an existing file\<close>



text \<open>
  C2, as the code has it. A file that exists, is opened and measured, and has the expected
  size, but whose first 8 bytes are not \<open>ENTRUSTASH_DAG_MAGIC_NUM\<close>, gives
  \<open>ENTRUSTASH_IO_MEMO_SIZE_MISMATCH\<close> (line 79), the status of a wrong size, and not
  \<open>ENTRUSTASH_IO_MEMO_MISMATCH\<close>: the stream is closed, \<^verbatim>\<open>*output_file\<close> keeps its value
  and the file is left as it was.
\<close>

theorem prepare_bad_magic:
  assumes "d \<in> dirs w \<or> mkdir_permitted p" and "malloc_succeeds p"
    and "files w (dag_path d n) = Some bs" and "fopen_rb_permitted p" and "fstat_succeeds p"
    and "length bs = unat fs + 8"
    and "load_u64 (take 8 bs) \<noteq> ENTRUSTASH_DAG_MAGIC_NUM"
  shows "fst (entrustash_io_prepare p w d n out fs False) = ENTRUSTASH_IO_MEMO_SIZE_MISMATCH
       \<and> fst (entrustash_io_prepare p w d n out fs False) \<noteq> ENTRUSTASH_IO_MEMO_MISMATCH
       \<and> fst (snd (entrustash_io_prepare p w d n out fs False)) = out
       \<and> streams (snd (snd (entrustash_io_prepare p w d n out fs False))) (next_FILE w) = None
       \<and> files (snd (snd (entrustash_io_prepare p w d n out fs False))) = files w"
proof -
  have der: "derives p w d" using assms(1,2) by (simp add: derives_def)
  have re: "reopens p w (dag_path d n) False" using assms(3,4) by (simp add: reopens_def)
  have rc: "existing_rc p bs fs = ENTRUSTASH_IO_MEMO_SIZE_MISMATCH"
    using assms(5,6,7) by (simp add: existing_rc_def)
  show ?thesis
    by (simp add: prepare_reopened [OF der re assms(3)] rc)
qed

theorem prepare_bad_magic_witness:
  "fst (entrustash_io_prepare all_succeed
          (world_with ''dag'' ''full-R23-00'' [0, 0, 0, 0, 0, 0, 0, 0, 1, 2, 3])
          ''dag'' ''full-R23-00'' None 3 False) = ENTRUSTASH_IO_MEMO_SIZE_MISMATCH
   \<and> fst (snd (entrustash_io_prepare all_succeed
          (world_with ''dag'' ''full-R23-00'' [0, 0, 0, 0, 0, 0, 0, 0, 1, 2, 3])
          ''dag'' ''full-R23-00'' None 3 False)) = None"
  using prepare_bad_magic [of "''dag''"
      "world_with ''dag'' ''full-R23-00'' [0, 0, 0, 0, 0, 0, 0, 0, 1, 2, 3]"
      all_succeed "''full-R23-00''" "[0, 0, 0, 0, 0, 0, 0, 0, 1, 2, 3]" 3 None]
  by (simp add: all_succeed_def load_u64_def ENTRUSTASH_DAG_MAGIC_NUM_def)

text \<open>
  The claim C2 itself fails: a file of 12 bytes, expected payload 4, whose first 8 bytes
  are not the magic number, does not give \<open>ENTRUSTASH_IO_MEMO_MISMATCH\<close>.
\<close>

theorem bad_magic_not_mismatch:
  "files (world_with ''dag'' ''full-R23-00'' [1, 1, 1, 1, 1, 1, 1, 1, 7, 7, 7, 7])
     (dag_path ''dag'' ''full-R23-00'') = Some [1, 1, 1, 1, 1, 1, 1, 1, 7, 7, 7, 7]
   \<and> length [1 :: byte, 1, 1, 1, 1, 1, 1, 1, 7, 7, 7, 7] = unat (4 :: 64 word) + 8
   \<and> load_u64 (take 8 [1, 1, 1, 1, 1, 1, 1, 1, 7, 7, 7, 7]) \<noteq> ENTRUSTASH_DAG_MAGIC_NUM
   \<and> fst (entrustash_io_prepare all_succeed
          (world_with ''dag'' ''full-R23-00'' [1, 1, 1, 1, 1, 1, 1, 1, 7, 7, 7, 7])
          ''dag'' ''full-R23-00'' None 4 False) \<noteq> ENTRUSTASH_IO_MEMO_MISMATCH"
proof -
  have der: "derives all_succeed
      (world_with ''dag'' ''full-R23-00'' [1, 1, 1, 1, 1, 1, 1, 1, 7, 7, 7, 7]) ''dag''"
    by (simp add: derives_def all_succeed_def)
  have re: "reopens all_succeed
      (world_with ''dag'' ''full-R23-00'' [1, 1, 1, 1, 1, 1, 1, 1, 7, 7, 7, 7])
      (dag_path ''dag'' ''full-R23-00'') False"
    by (simp add: reopens_def all_succeed_def)
  have f: "files (world_with ''dag'' ''full-R23-00'' [1, 1, 1, 1, 1, 1, 1, 1, 7, 7, 7, 7])
      (dag_path ''dag'' ''full-R23-00'') = Some [1, 1, 1, 1, 1, 1, 1, 1, 7, 7, 7, 7]"
    by simp
  have m: "load_u64 (take 8 [1, 1, 1, 1, 1, 1, 1, 1, 7, 7, 7, 7]) \<noteq> ENTRUSTASH_DAG_MAGIC_NUM"
    by (simp add: load_u64_def ENTRUSTASH_DAG_MAGIC_NUM_def)
  have rc: "existing_rc all_succeed [1, 1, 1, 1, 1, 1, 1, 1, 7, 7, 7, 7] 4
              = ENTRUSTASH_IO_MEMO_SIZE_MISMATCH"
    using m by (simp add: existing_rc_def all_succeed_def)
  show ?thesis
    using m by (simp add: prepare_reopened(1) [OF der re f] rc)
qed

text \<open>
  C3. For a file that exists and whose size is not \<open>file_size + 8\<close>, the result is never
  \<open>ENTRUSTASH_IO_MEMO_MATCH\<close>, whatever \<open>force_create\<close> and the platform are; and when the
  file is opened and measured (\<open>force_create = false\<close>) the result is
  \<open>ENTRUSTASH_IO_MEMO_SIZE_MISMATCH\<close>.
\<close>

theorem prepare_size_mismatch:
  assumes "files w (dag_path d n) = Some bs" and "length bs < 2 ^ 64"
    and "length bs \<noteq> unat fs + 8"
  shows "fst (entrustash_io_prepare p w d n out fs force) \<noteq> ENTRUSTASH_IO_MEMO_MATCH
       \<and> ((d \<in> dirs w \<or> mkdir_permitted p) \<and> malloc_succeeds p
            \<and> fopen_rb_permitted p \<and> fstat_succeeds p \<longrightarrow>
          fst (entrustash_io_prepare p w d n out fs False) = ENTRUSTASH_IO_MEMO_SIZE_MISMATCH)"
  using assms existing_rc_cases [OF assms(2), of p fs]
  by (simp add: prepare_rc create_rc_not_match derives_def reopens_def)

theorem prepare_size_mismatch_witness:
  "fst (entrustash_io_prepare all_succeed
          (world_with ''dag'' ''full-R23-00'' (magic_bytes @ [1, 2, 3]))
          ''dag'' ''full-R23-00'' None 4 False) = ENTRUSTASH_IO_MEMO_SIZE_MISMATCH"
proof -
  have l: "length (magic_bytes @ [1, 2, 3]) = 11"
    by (simp add: magic_bytes_def)
  show ?thesis
    using prepare_size_mismatch [of "world_with ''dag'' ''full-R23-00'' (magic_bytes @ [1, 2, 3])"
        "''dag''" "''full-R23-00''" "magic_bytes @ [1, 2, 3]" 4 all_succeed None False] l
    by (simp add: all_succeed_def)
qed

text \<open>
  C10. For a file shorter than the 8 bytes of the magic number,
  \<^verbatim>\<open>found_size - ENTRUSTASH_DAG_MAGIC_NUM_SIZE\<close> wraps to at least \<open>2 ^ 64 - 8\<close>; so for every
  expected \<open>file_size\<close> below \<open>2 ^ 64 - 8\<close> the size test of line 63 rejects the file and
  the result is \<open>ENTRUSTASH_IO_MEMO_SIZE_MISMATCH\<close>.
\<close>

theorem prepare_truncated_file:
  assumes "files w (dag_path d n) = Some bs" and "length bs < 8"
  shows "2 ^ 64 - 8 \<le> unat ((of_nat (length bs) :: 64 word) - of_nat ENTRUSTASH_DAG_MAGIC_NUM_SIZE)
       \<and> (unat fs < 2 ^ 64 - 8 \<longrightarrow>
            fs \<noteq> of_nat (length bs) - of_nat ENTRUSTASH_DAG_MAGIC_NUM_SIZE
          \<and> ((d \<in> dirs w \<or> mkdir_permitted p) \<and> malloc_succeeds p
               \<and> fopen_rb_permitted p \<and> fstat_succeeds p \<longrightarrow>
             fst (entrustash_io_prepare p w d n out fs False) = ENTRUSTASH_IO_MEMO_SIZE_MISMATCH))"
proof -
  have u: "unat ((of_nat (length bs) :: 64 word) - 8) = 2 ^ 64 - 8 + length bs"
    by (rule short_file_wraps [OF assms(2)])
  have ne: "fs \<noteq> of_nat (length bs) - 8" if "unat fs < 2 ^ 64 - 8"
    using that u by auto
  show ?thesis
    using assms u ne
    by (auto simp: prepare_rc derives_def reopens_def existing_rc_def
        ENTRUSTASH_DAG_MAGIC_NUM_SIZE_def)
qed

theorem prepare_truncated_file_witness:
  "fst (entrustash_io_prepare all_succeed (world_with ''dag'' ''full-R23-00'' [1, 2, 3])
          ''dag'' ''full-R23-00'' None 1073739904 False) = ENTRUSTASH_IO_MEMO_SIZE_MISMATCH"
  using prepare_truncated_file [of "world_with ''dag'' ''full-R23-00'' [1, 2, 3]"
      "''dag''" "''full-R23-00''" "[1, 2, 3]" 1073739904 all_succeed None]
  by (simp add: all_succeed_def)

section \<open>Creating the file\<close>

text \<open>
  When no file exists at the derived path, the result is never
  \<open>ENTRUSTASH_IO_MEMO_MATCH\<close>. If the directory is absent and cannot be created, the
  result is \<open>ENTRUSTASH_IO_FAIL\<close>. If the directory exists already or is created, the
  allocation, \<^verbatim>\<open>fopen(tmpfile, "wb+")\<close>, \<^verbatim>\<open>fseek\<close>, \<^verbatim>\<open>fputc\<close> and \<^verbatim>\<open>fflush\<close> succeed, and
  \<open>file_size + 7\<close> is representable as a \<^verbatim>\<open>long int\<close>, then the result is
  \<open>ENTRUSTASH_IO_MEMO_MISMATCH\<close>, the directory exists afterwards, the file holds
  \<open>file_size + 8\<close> bytes, the new stream is in \<^verbatim>\<open>*output_file\<close>, and the library calls are,
  in this order: \<^verbatim>\<open>mkdir\<close>, the allocation of the path, the failed \<^verbatim>\<open>rb+\<close> open (unless
  \<open>force_create\<close>), the \<^verbatim>\<open>wb+\<close> open, the seek to \<open>file_size + 7\<close>, the write of one byte,
  the flush, and \<^verbatim>\<open>free\<close>.
\<close>

theorem prepare_creates_absent:
  assumes "files w (dag_path d n) = None"
  shows "fst (entrustash_io_prepare p w d n out fs force) \<noteq> ENTRUSTASH_IO_MEMO_MATCH
       \<and> (\<not> (d \<in> dirs w \<or> mkdir_permitted p) \<longrightarrow>
            fst (entrustash_io_prepare p w d n out fs force) = ENTRUSTASH_IO_FAIL)
       \<and> ((d \<in> dirs w \<or> mkdir_permitted p) \<and> malloc_succeeds p \<and> fopen_wb_permitted p
            \<and> fseek_succeeds p \<and> fputc_succeeds p \<and> fflush_succeeds p
            \<and> 0 < long_bits p \<and> long_bits p \<le> 64 \<and> unat fs + 7 < 2 ^ (long_bits p - 1) \<longrightarrow>
            fst (entrustash_io_prepare p w d n out fs force) = ENTRUSTASH_IO_MEMO_MISMATCH
          \<and> fst (snd (entrustash_io_prepare p w d n out fs force)) = Some (next_FILE w)
          \<and> d \<in> dirs (snd (snd (entrustash_io_prepare p w d n out fs force)))
          \<and> files (snd (snd (entrustash_io_prepare p w d n out fs force))) (dag_path d n)
              = Some (replicate (unat fs + 7) 0 @ [0x0A])
          \<and> length (replicate (unat fs + 7) (0 :: byte) @ [0x0A]) = unat fs + 8
          \<and> calls (snd (snd (entrustash_io_prepare p w d n out fs force)))
              = calls w @ [Call_mkdir d, Call_malloc (length d + length n + 2)]
                @ (if force then [] else [Call_fopen (dag_path d n) ''rb+''])
                @ [Call_fopen (dag_path d n) ''wb+'',
                   Call_fseek (next_FILE w) (int (unat fs + 7)),
                   Call_fputc (next_FILE w) 0x0A,
                   Call_fflush (next_FILE w),
                   Call_free (dag_path d n)])"
proof -
  have nre: "\<not> reopens p w (dag_path d n) force"
    using assms by (simp add: reopens_def)
  have 1: "fst (entrustash_io_prepare p w d n out fs force) \<noteq> ENTRUSTASH_IO_MEMO_MATCH"
    using nre by (simp add: prepare_rc create_rc_not_match)
  have 2: "fst (entrustash_io_prepare p w d n out fs force) = ENTRUSTASH_IO_FAIL"
    if "\<not> (d \<in> dirs w \<or> mkdir_permitted p)"
    using that by (simp add: prepare_rc derives_def)
  have 3: "fst (entrustash_io_prepare p w d n out fs force) = ENTRUSTASH_IO_MEMO_MISMATCH
          \<and> fst (snd (entrustash_io_prepare p w d n out fs force)) = Some (next_FILE w)
          \<and> d \<in> dirs (snd (snd (entrustash_io_prepare p w d n out fs force)))
          \<and> files (snd (snd (entrustash_io_prepare p w d n out fs force))) (dag_path d n)
              = Some (replicate (unat fs + 7) 0 @ [0x0A])
          \<and> length (replicate (unat fs + 7) (0 :: byte) @ [0x0A]) = unat fs + 8
          \<and> calls (snd (snd (entrustash_io_prepare p w d n out fs force)))
              = calls w @ [Call_mkdir d, Call_malloc (length d + length n + 2)]
                @ (if force then [] else [Call_fopen (dag_path d n) ''rb+''])
                @ [Call_fopen (dag_path d n) ''wb+'',
                   Call_fseek (next_FILE w) (int (unat fs + 7)),
                   Call_fputc (next_FILE w) 0x0A,
                   Call_fflush (next_FILE w),
                   Call_free (dag_path d n)]"
    if h: "(d \<in> dirs w \<or> mkdir_permitted p) \<and> malloc_succeeds p \<and> fopen_wb_permitted p
            \<and> fseek_succeeds p \<and> fputc_succeeds p \<and> fflush_succeeds p
            \<and> 0 < long_bits p \<and> long_bits p \<le> 64 \<and> unat fs + 7 < 2 ^ (long_bits p - 1)"
  proof -
    have der: "derives p w d" using h by (simp add: derives_def)
    have off: "seek_offset p fs = int (unat fs + 7)"
      using h by (intro seek_offset_fits) simp_all
    have nn: "0 \<le> seek_offset p fs"
      unfolding off by (rule of_nat_0_le_iff)
    have nat_off: "nat (seek_offset p fs) = unat fs + 7"
      unfolding off by (rule nat_int)
    have rc: "create_rc p fs = ENTRUSTASH_IO_MEMO_MISMATCH"
      using h nn by (simp add: create_rc_def)
    have cc: "create_calls p (next_FILE w) (dag_path d n) fs =
                [Call_fopen (dag_path d n) ''wb+'',
                 Call_fseek (next_FILE w) (int (unat fs + 7)),
                 Call_fputc (next_FILE w) 0x0A,
                 Call_fflush (next_FILE w)]"
      using h nn by (simp add: create_calls_def rc) (simp add: off)
    have dir: "d \<in> dirs (snd (snd (entrustash_io_prepare p w d n out fs force)))"
      using h by (auto simp: prepare_dirs)
    have fl: "files (snd (snd (entrustash_io_prepare p w d n out fs force))) (dag_path d n)
              = Some (replicate (unat fs + 7) 0 @ [0x0A])"
      using h nn by (simp add: prepare_created(3) [OF der nre] nat_off put_byte_empty)
    show ?thesis
      using dir fl by (simp add: prepare_created(1,2,6) [OF der nre] rc cc)
  qed
  from 1 2 3 show ?thesis by blast
qed


theorem prepare_creates_absent_witness:
  "fst (entrustash_io_prepare all_succeed empty_world ''dag'' ''full-R23-00'' None 3 False)
     = ENTRUSTASH_IO_MEMO_MISMATCH
   \<and> ''dag'' \<in> dirs (snd (snd (entrustash_io_prepare all_succeed empty_world
                                  ''dag'' ''full-R23-00'' None 3 False)))
   \<and> files (snd (snd (entrustash_io_prepare all_succeed empty_world
                         ''dag'' ''full-R23-00'' None 3 False))) (dag_path ''dag'' ''full-R23-00'')
       = Some (replicate 10 0 @ [0x0A])
   \<and> calls (snd (snd (entrustash_io_prepare all_succeed empty_world
                         ''dag'' ''full-R23-00'' None 3 False)))
       = [Call_mkdir ''dag'', Call_malloc 16,
          Call_fopen (dag_path ''dag'' ''full-R23-00'') ''rb+'',
          Call_fopen (dag_path ''dag'' ''full-R23-00'') ''wb+'',
          Call_fseek 0 10, Call_fputc 0 0x0A, Call_fflush 0,
          Call_free (dag_path ''dag'' ''full-R23-00'')]"
  using prepare_creates_absent [of empty_world "''dag''" "''full-R23-00''" all_succeed None 3 False]
  by (simp add: all_succeed_def)

text \<open>
  C5. When no file exists, the file is to be created and extended to \<open>file_size + 8\<close>
  bytes (the comment of line 93 asks for the proper size). The offset of line 94 is
  converted to \<^verbatim>\<open>long int\<close>, and where that has 32 bits the code does not do so, with
  every library call permitted: for \<open>file_size = 2 ^ 32\<close> the seek goes to offset 7, the
  file gets 8 bytes and the status is \<open>ENTRUSTASH_IO_MEMO_MISMATCH\<close>, as for a file of the
  proper size; for \<open>file_size = 2 ^ 31\<close> the offset is negative, the seek is refused, the
  file stays empty and the status is \<open>ENTRUSTASH_IO_FAIL\<close>.
\<close>

theorem create_offset_truncated:
  "long_bits all_succeed = 32
   \<and> files empty_world (dag_path ''dag'' ''full-R23-00'') = None
   \<and> fst (entrustash_io_prepare all_succeed empty_world ''dag'' ''full-R23-00'' None
            4294967296 False) = ENTRUSTASH_IO_MEMO_MISMATCH
   \<and> files (snd (snd (entrustash_io_prepare all_succeed empty_world ''dag'' ''full-R23-00'' None
            4294967296 False))) (dag_path ''dag'' ''full-R23-00'')
       = Some [0, 0, 0, 0, 0, 0, 0, 0x0A]
   \<and> calls (snd (snd (entrustash_io_prepare all_succeed empty_world ''dag'' ''full-R23-00'' None
            4294967296 False)))
       = [Call_mkdir ''dag'', Call_malloc 16,
          Call_fopen (dag_path ''dag'' ''full-R23-00'') ''rb+'',
          Call_fopen (dag_path ''dag'' ''full-R23-00'') ''wb+'',
          Call_fseek 0 7, Call_fputc 0 0x0A, Call_fflush 0,
          Call_free (dag_path ''dag'' ''full-R23-00'')]
   \<and> fst (entrustash_io_prepare all_succeed empty_world ''dag'' ''full-R23-00'' None
            2147483648 False) = ENTRUSTASH_IO_FAIL
   \<and> files (snd (snd (entrustash_io_prepare all_succeed empty_world ''dag'' ''full-R23-00'' None
            2147483648 False))) (dag_path ''dag'' ''full-R23-00'')
       = Some []
   \<and> calls (snd (snd (entrustash_io_prepare all_succeed empty_world ''dag'' ''full-R23-00'' None
            2147483648 False)))
       = [Call_mkdir ''dag'', Call_malloc 16,
          Call_fopen (dag_path ''dag'' ''full-R23-00'') ''rb+'',
          Call_fopen (dag_path ''dag'' ''full-R23-00'') ''wb+'',
          Call_fseek 0 (- 2147483641), Call_fclose 0,
          Call_free (dag_path ''dag'' ''full-R23-00'')]"
proof -
  have der: "derives all_succeed empty_world ''dag''"
    by (simp add: derives_def all_succeed_def)
  have nre: "\<not> reopens all_succeed empty_world (dag_path ''dag'' ''full-R23-00'') False"
    by (simp add: reopens_def)
  have o1: "seek_offset all_succeed 4294967296 = 7"
    by (simp add: seek_offset_def to_long_def all_succeed_def)
  have o2: "seek_offset all_succeed 2147483648 = - 2147483641"
    by (simp add: seek_offset_def to_long_def all_succeed_def)
  have r1: "create_rc all_succeed 4294967296 = ENTRUSTASH_IO_MEMO_MISMATCH"
    by (simp add: create_rc_def o1) (simp add: all_succeed_def)
  have r2: "create_rc all_succeed 2147483648 = ENTRUSTASH_IO_FAIL"
    by (simp add: create_rc_def o2)
  have c1: "create_calls all_succeed 0 (dag_path ''dag'' ''full-R23-00'') 4294967296
              = [Call_fopen (dag_path ''dag'' ''full-R23-00'') ''wb+'',
                 Call_fseek 0 7, Call_fputc 0 0x0A, Call_fflush 0]"
    by (simp add: create_calls_def r1 o1) (simp add: all_succeed_def)
  have c2: "create_calls all_succeed 0 (dag_path ''dag'' ''full-R23-00'') 2147483648
              = [Call_fopen (dag_path ''dag'' ''full-R23-00'') ''wb+'',
                 Call_fseek 0 (- 2147483641), Call_fclose 0]"
    by (simp add: create_calls_def r2 o2) (simp add: all_succeed_def)
  have p7: "put_byte [] 7 0x0A = [0, 0, 0, 0, 0, 0, 0, 0x0A :: byte]"
    by (simp add: put_byte_def numeral_eq_Suc)
  have f1: "files (snd (snd (entrustash_io_prepare all_succeed empty_world ''dag''
              ''full-R23-00'' None 4294967296 False))) (dag_path ''dag'' ''full-R23-00'')
            = Some [0, 0, 0, 0, 0, 0, 0, 0x0A]"
    by (simp add: prepare_created(3) [OF der nre] o1 p7) (simp add: all_succeed_def)
  have f2: "files (snd (snd (entrustash_io_prepare all_succeed empty_world ''dag''
              ''full-R23-00'' None 2147483648 False))) (dag_path ''dag'' ''full-R23-00'')
            = Some []"
    by (simp add: prepare_created(3) [OF der nre] o2) (simp add: all_succeed_def)
  show ?thesis
    using f1 f2
    by (simp add: prepare_created(1,6) [OF der nre] r1 r2 c1 c2) (simp add: all_succeed_def)
qed

section \<open>Failures of the library calls\<close>

text \<open>
  The status of each failure. A failure of the directory creation, of the allocation of
  the path, of the size query on the opened file, or (when the file is to be created) of
  the \<^verbatim>\<open>wb+\<close> open, the seek, the write or the flush gives \<open>ENTRUSTASH_IO_FAIL\<close>, which
  differs from the three other statuses. A failed read of the magic number gives
  \<open>ENTRUSTASH_IO_MEMO_SIZE_MISMATCH\<close> (line 74).
\<close>

theorem prepare_io_failures:
  "(\<not> (d \<in> dirs w \<or> mkdir_permitted p) \<longrightarrow>
      fst (entrustash_io_prepare p w d n out fs force) = ENTRUSTASH_IO_FAIL)
   \<and> (\<not> malloc_succeeds p \<longrightarrow>
      fst (entrustash_io_prepare p w d n out fs force) = ENTRUSTASH_IO_FAIL)
   \<and> (reopens p w (dag_path d n) force \<and> \<not> fstat_succeeds p \<longrightarrow>
      fst (entrustash_io_prepare p w d n out fs force) = ENTRUSTASH_IO_FAIL)
   \<and> (\<not> reopens p w (dag_path d n) force \<and> \<not> fopen_wb_permitted p \<longrightarrow>
      fst (entrustash_io_prepare p w d n out fs force) = ENTRUSTASH_IO_FAIL)
   \<and> (\<not> reopens p w (dag_path d n) force \<and> \<not> (0 \<le> seek_offset p fs \<and> fseek_succeeds p) \<longrightarrow>
      fst (entrustash_io_prepare p w d n out fs force) = ENTRUSTASH_IO_FAIL)
   \<and> (\<not> reopens p w (dag_path d n) force \<and> \<not> fputc_succeeds p \<longrightarrow>
      fst (entrustash_io_prepare p w d n out fs force) = ENTRUSTASH_IO_FAIL)
   \<and> (\<not> reopens p w (dag_path d n) force \<and> \<not> fflush_succeeds p \<longrightarrow>
      fst (entrustash_io_prepare p w d n out fs force) = ENTRUSTASH_IO_FAIL)
   \<and> ((d \<in> dirs w \<or> mkdir_permitted p) \<and> malloc_succeeds p
        \<and> reopens p w (dag_path d n) force \<and> fstat_succeeds p \<and> \<not> fread_succeeds p \<longrightarrow>
      fst (entrustash_io_prepare p w d n out fs force) = ENTRUSTASH_IO_MEMO_SIZE_MISMATCH)
   \<and> ENTRUSTASH_IO_FAIL \<noteq> ENTRUSTASH_IO_MEMO_MISMATCH
   \<and> ENTRUSTASH_IO_FAIL \<noteq> ENTRUSTASH_IO_MEMO_SIZE_MISMATCH
   \<and> ENTRUSTASH_IO_FAIL \<noteq> ENTRUSTASH_IO_MEMO_MATCH"
  by (simp add: prepare_rc derives_def existing_rc_def create_rc_def)

theorem prepare_io_failures_witness:
  "fst (entrustash_io_prepare (all_succeed\<lparr>mkdir_permitted := False\<rparr>) empty_world
          ''dag'' ''full-R23-00'' None 3 False) = ENTRUSTASH_IO_FAIL
   \<and> fst (entrustash_io_prepare (all_succeed\<lparr>fstat_succeeds := False\<rparr>)
          (world_with ''dag'' ''full-R23-00'' (magic_bytes @ [1, 2, 3]))
          ''dag'' ''full-R23-00'' None 3 False) = ENTRUSTASH_IO_FAIL
   \<and> fst (entrustash_io_prepare (all_succeed\<lparr>fflush_succeeds := False\<rparr>) empty_world
          ''dag'' ''full-R23-00'' None 3 False) = ENTRUSTASH_IO_FAIL
   \<and> fst (entrustash_io_prepare fread_fails
          (world_with ''dag'' ''full-R23-00'' (magic_bytes @ [1, 2, 3]))
          ''dag'' ''full-R23-00'' None 3 False) = ENTRUSTASH_IO_MEMO_SIZE_MISMATCH"
  using
    prepare_io_failures [of "''dag''" empty_world "all_succeed\<lparr>mkdir_permitted := False\<rparr>"
      "''full-R23-00''" None 3 False]
    prepare_io_failures [of "''dag''" "world_with ''dag'' ''full-R23-00'' (magic_bytes @ [1, 2, 3])"
      "all_succeed\<lparr>fstat_succeeds := False\<rparr>" "''full-R23-00''" None 3 False]
    prepare_io_failures [of "''dag''" empty_world "all_succeed\<lparr>fflush_succeeds := False\<rparr>"
      "''full-R23-00''" None 3 False]
    prepare_io_failures [of "''dag''" "world_with ''dag'' ''full-R23-00'' (magic_bytes @ [1, 2, 3])"
      fread_fails "''full-R23-00''" None 3 False]
  by (simp add: all_succeed_def fread_fails_def reopens_def)

text \<open>
  C4. Every failure of a library call is to give \<open>ENTRUSTASH_IO_FAIL\<close>. The code does not
  do so for the read of the magic number, in the branch that its own comment calls an
  I/O error and that logs as the failure branches do: on a valid file whose read fails,
  the calls are \<^verbatim>\<open>mkdir\<close>, the allocation, \<^verbatim>\<open>fopen\<close>, the size query, \<^verbatim>\<open>fread\<close>, \<^verbatim>\<open>fclose\<close>,
  \<^verbatim>\<open>free\<close>, and the status is not \<open>ENTRUSTASH_IO_FAIL\<close>.
\<close>

theorem fread_failure_not_fail:
  "\<not> fread_succeeds fread_fails
   \<and> fst (entrustash_io_prepare fread_fails
          (world_with ''dag'' ''full-R23-00'' (magic_bytes @ [1, 2, 3]))
          ''dag'' ''full-R23-00'' None 3 False) \<noteq> ENTRUSTASH_IO_FAIL
   \<and> calls (snd (snd (entrustash_io_prepare fread_fails
          (world_with ''dag'' ''full-R23-00'' (magic_bytes @ [1, 2, 3]))
          ''dag'' ''full-R23-00'' None 3 False)))
       = [Call_mkdir ''dag'', Call_malloc 16,
          Call_fopen (dag_path ''dag'' ''full-R23-00'') ''rb+'',
          Call_fstat 0, Call_fread 0 8, Call_fclose 0,
          Call_free (dag_path ''dag'' ''full-R23-00'')]"
proof -
  have der: "derives fread_fails
      (world_with ''dag'' ''full-R23-00'' (magic_bytes @ [1, 2, 3])) ''dag''"
    by (simp add: derives_def fread_fails_def all_succeed_def)
  have re: "reopens fread_fails
      (world_with ''dag'' ''full-R23-00'' (magic_bytes @ [1, 2, 3]))
      (dag_path ''dag'' ''full-R23-00'') False"
    by (simp add: reopens_def fread_fails_def all_succeed_def)
  have f: "files (world_with ''dag'' ''full-R23-00'' (magic_bytes @ [1, 2, 3]))
      (dag_path ''dag'' ''full-R23-00'') = Some (magic_bytes @ [1, 2, 3])"
    by simp
  have rc: "existing_rc fread_fails (magic_bytes @ [1, 2, 3]) 3 = ENTRUSTASH_IO_MEMO_SIZE_MISMATCH"
    by (simp add: existing_rc_def fread_fails_def all_succeed_def)
  have cs: "existing_calls fread_fails 0 (magic_bytes @ [1, 2, 3]) 3
              = [Call_fstat 0, Call_fread 0 8, Call_fclose 0]"
    by (simp add: existing_calls_def rc) (simp add: fread_fails_def all_succeed_def)
  show ?thesis
    by (simp add: prepare_reopened(1,6) [OF der re f] rc cs)
       (simp add: fread_fails_def all_succeed_def)
qed

section \<open>Forced creation\<close>



section \<open>The output parameter and the streams\<close>

text \<open>
  C9. \<^verbatim>\<open>*output_file\<close> is written only when the status is \<open>ENTRUSTASH_IO_MEMO_MATCH\<close> or
  \<open>ENTRUSTASH_IO_MEMO_MISMATCH\<close>, and then it is the stream the function opened, which is
  still open. When the status is \<open>ENTRUSTASH_IO_FAIL\<close> or
  \<open>ENTRUSTASH_IO_MEMO_SIZE_MISMATCH\<close>, \<^verbatim>\<open>*output_file\<close> keeps its value, every stream that is
  open after the call was open before it, and if the function opened a stream, its last
  two calls are the \<^verbatim>\<open>fclose\<close> of that stream and \<^verbatim>\<open>free(tmpfile)\<close>.
\<close>

theorem prepare_output_file_frame:
  "(fst (entrustash_io_prepare p w d n out fs force) = ENTRUSTASH_IO_MEMO_MATCH
      \<or> fst (entrustash_io_prepare p w d n out fs force) = ENTRUSTASH_IO_MEMO_MISMATCH \<longrightarrow>
        fst (snd (entrustash_io_prepare p w d n out fs force)) = Some (next_FILE w)
      \<and> (\<exists>pos. streams (snd (snd (entrustash_io_prepare p w d n out fs force))) (next_FILE w)
                  = Some (dag_path d n, pos)))
   \<and> (fst (entrustash_io_prepare p w d n out fs force) = ENTRUSTASH_IO_FAIL
      \<or> fst (entrustash_io_prepare p w d n out fs force) = ENTRUSTASH_IO_MEMO_SIZE_MISMATCH \<longrightarrow>
        fst (snd (entrustash_io_prepare p w d n out fs force)) = out
      \<and> (\<forall>f s. streams (snd (snd (entrustash_io_prepare p w d n out fs force))) f = Some s \<longrightarrow>
                 streams w f = Some s)
      \<and> (next_FILE (snd (snd (entrustash_io_prepare p w d n out fs force))) \<noteq> next_FILE w \<longrightarrow>
           (\<exists>cs. calls (snd (snd (entrustash_io_prepare p w d n out fs force)))
                    = cs @ [Call_fclose (next_FILE w), Call_free (dag_path d n)])))"
proof (cases "derives p w d")
  case False
  then show ?thesis by (simp add: prepare_underived)
next
  case der: True
  show ?thesis
  proof (cases "reopens p w (dag_path d n) force")
    case True
    then obtain bs where bs: "files w (dag_path d n) = Some bs"
      by (auto simp: reopens_def)
    note r = prepare_reopened [OF der True bs, of out fs]
    show ?thesis
    proof (cases "existing_rc p bs fs = ENTRUSTASH_IO_MEMO_MATCH")
      case True
      then show ?thesis by (simp add: r)
    next
      case False
      from existing_calls_closed [OF False, of "next_FILE w"]
      obtain cs where cs: "existing_calls p (next_FILE w) bs fs = cs @ [Call_fclose (next_FILE w)]"
        by blast
      have "calls (snd (snd (entrustash_io_prepare p w d n out fs force)))
              = (calls w @ [Call_mkdir d, Call_malloc (length d + length n + 2),
                            Call_fopen (dag_path d n) ''rb+''] @ cs)
                @ [Call_fclose (next_FILE w), Call_free (dag_path d n)]"
        by (simp add: r(6) cs)
      then have ex: "\<exists>cs. calls (snd (snd (entrustash_io_prepare p w d n out fs force)))
                    = cs @ [Call_fclose (next_FILE w), Call_free (dag_path d n)]"
        by blast
      show ?thesis
        using False ex by (simp add: r(1,2,4) existing_rc_not_mismatch)
    qed
  next
    case False
    note c = prepare_created [OF der False, of out fs]
    show ?thesis
    proof (cases "create_rc p fs = ENTRUSTASH_IO_MEMO_MISMATCH")
      case True
      then show ?thesis by (simp add: c)
    next
      case nm: False
      then have fail: "create_rc p fs = ENTRUSTASH_IO_FAIL"
        using create_rc_cases [of p fs] by simp
      have ex: "\<exists>cs. calls (snd (snd (entrustash_io_prepare p w d n out fs force)))
                    = cs @ [Call_fclose (next_FILE w), Call_free (dag_path d n)]"
        if wb: "fopen_wb_permitted p"
      proof -
        from create_calls_closed [OF wb nm, of "next_FILE w" "dag_path d n"]
        obtain cs where cs: "create_calls p (next_FILE w) (dag_path d n) fs
                               = cs @ [Call_fclose (next_FILE w)]"
          by blast
        have "calls (snd (snd (entrustash_io_prepare p w d n out fs force)))
              = (calls w @ [Call_mkdir d, Call_malloc (length d + length n + 2)]
                 @ (if force then [] else [Call_fopen (dag_path d n) ''rb+'']) @ cs)
                @ [Call_fclose (next_FILE w), Call_free (dag_path d n)]"
          by (simp add: c(6) cs)
        then show ?thesis by blast
      qed
      show ?thesis
        using ex by (simp add: c(1,2,4,5) fail)
    qed
  qed
qed

theorem prepare_output_file_frame_witness:
  "fst (snd (entrustash_io_prepare all_succeed
          (world_with ''dag'' ''full-R23-00'' (magic_bytes @ [1, 2, 3]))
          ''dag'' ''full-R23-00'' (Some 7) 4 False)) = Some 7
   \<and> fst (snd (entrustash_io_prepare all_succeed
          (world_with ''dag'' ''full-R23-00'' (magic_bytes @ [1, 2, 3]))
          ''dag'' ''full-R23-00'' (Some 7) 3 False)) = Some 0"
proof -
  have a: "fst (entrustash_io_prepare all_succeed
          (world_with ''dag'' ''full-R23-00'' (magic_bytes @ [1, 2, 3]))
          ''dag'' ''full-R23-00'' (Some 7) 4 False) = ENTRUSTASH_IO_MEMO_SIZE_MISMATCH"
    by (simp add: prepare_rc derives_def reopens_def existing_rc_def all_succeed_def)
  have b: "fst (entrustash_io_prepare all_succeed
          (world_with ''dag'' ''full-R23-00'' (magic_bytes @ [1, 2, 3]))
          ''dag'' ''full-R23-00'' (Some 7) 3 False) = ENTRUSTASH_IO_MEMO_MATCH"
    using load_magic_bytes [of "[]"]
    by (simp add: prepare_rc derives_def reopens_def existing_rc_def all_succeed_def)
  show ?thesis
    using
      prepare_output_file_frame [of all_succeed
        "world_with ''dag'' ''full-R23-00'' (magic_bytes @ [1, 2, 3])"
        "''dag''" "''full-R23-00''" "Some 7" 4 False]
      prepare_output_file_frame [of all_succeed
        "world_with ''dag'' ''full-R23-00'' (magic_bytes @ [1, 2, 3])"
        "''dag''" "''full-R23-00''" "Some 7" 3 False]
    by (simp add: a b)
qed

section \<open>The initial cache size\<close>

text \<open>
  C6. The claim that \<open>ENTRUSTASH_CACHE_BYTES_INIT\<close> is \<open>2 ^ 24\<close> and far smaller than the
  initial dataset size does not hold of the header: the literal is 1073741824, which is
  \<open>2 ^ 30\<close> and equal to \<open>ENTRUSTASH_DATASET_BYTES_INIT\<close>, beside a comment that says
  \<^verbatim>\<open>2**24\<close>.
\<close>

theorem cache_bytes_init_value:
  "ENTRUSTASH_CACHE_BYTES_INIT = 2 ^ 30
   \<and> ENTRUSTASH_CACHE_BYTES_INIT \<noteq> 2 ^ 24
   \<and> ENTRUSTASH_CACHE_BYTES_INIT = ENTRUSTASH_DATASET_BYTES_INIT"
  by (simp add: ENTRUSTASH_CACHE_BYTES_INIT_def ENTRUSTASH_DATASET_BYTES_INIT_def)

section \<open>The path name on Windows\<close>

text \<open>
  C7. In \<^verbatim>\<open>entrustash_io_create_filename\<close> of \<^verbatim>\<open>io_win32.c\<close> the separator test is true of
  every character (the character it is applied to is the terminator of \<open>dirname\<close>), so
  the allocation is always \<open>dirlen + filename_length + 2\<close> bytes and the result is always
  the directory, a backslash and the file name, also when the directory ends with a
  separator already.
\<close>

theorem create_filename_always_separator:
  "separator_check c
   \<and> c_char_at d (length d) = NUL
   \<and> create_filename_dest_size d k = length d + k + 2
   \<and> entrustash_io_create_filename p w d n k =
       (if malloc_succeeds p then Some (d @ [CHR 0x5C] @ take k n) else None,
        logged (Call_malloc (length d + k + 2)) w)"
  by (simp add: separator_check_True c_char_at_def create_filename_dest_size_def
      entrustash_io_create_filename_def c_malloc_def entrustash_strncat_def Let_def)

theorem create_filename_always_separator_witness:
  "separator_check (CHR 0x5C) \<and> separator_check (CHR ''/'')
   \<and> fst (entrustash_io_create_filename all_succeed empty_world (''dag'' @ [CHR 0x5C]) ''full'' 4)
       = Some (''dag'' @ [CHR 0x5C, CHR 0x5C] @ ''full'')
   \<and> fst (entrustash_io_create_filename all_succeed empty_world ''dag/'' ''full'' 4)
       = Some (''dag/'' @ [CHR 0x5C] @ ''full'')
   \<and> create_filename_dest_size (''dag'' @ [CHR 0x5C]) 4 = 10"
  using
    create_filename_always_separator [of "CHR 0x5C" "''dag'' @ [CHR 0x5C]" 4 all_succeed
      empty_world "''full''"]
    create_filename_always_separator [of "CHR ''/''" "''dag/''" 4 all_succeed empty_world "''full''"]
  by (simp add: all_succeed_def)

end
